theory Spec2Isabelle
  imports Complex_Main "HOL-Library.Multiset" "HOL-Library.Log_Nat"
begin

section \<open>Conventions\<close>

text \<open>
  The development embeds the reconciliation route (\<^verbatim>\<open>api/reconciliation/route.ts\<close>), the
  netting route (\<^verbatim>\<open>api/netting/route.ts\<close>), the route of the simulated ledger, which holds
  one \<^verbatim>\<open>approveSettlement\<close> and one \<^verbatim>\<open>executeSettlement\<close> (called the ledger route
  below), and the treasury route (\<^verbatim>\<open>api/treasury/route.ts\<close>), which holds the
  orchestrating versions of the same two operations.

  A JavaScript \<^verbatim>\<open>number\<close> is an IEEE 754 double. The model carries a double as the
  rational it denotes (\<^typ>\<open>rat\<close>) and rounds the result of every addition, subtraction,
  multiplication and division of the source to the nearest double, ties to even;
  comparisons, \<^verbatim>\<open>Math.abs\<close>, \<^verbatim>\<open>Math.min\<close> and \<^verbatim>\<open>Math.max\<close> are exact on doubles. A decimal
  literal of the source is the double nearest to it. \<^verbatim>\<open>NaN\<close> and the infinities (results of
  magnitude \<open>2^1024\<close> and above) are outside the model. A \<^verbatim>\<open>Date\<close> is its \<^verbatim>\<open>getTime()\<close> value in
  milliseconds (\<^typ>\<open>int\<close>). A database table is the list of its rows in insertion order.
\<close>

section \<open>Double-precision arithmetic\<close>

text \<open>\<open>pow2 e\<close> is \<open>2^e\<close> for an integer exponent.\<close>

definition pow2 :: "int \<Rightarrow> rat" where
  "pow2 e = (if 0 \<le> e then 2 ^ nat e else 1 / 2 ^ nat (- e))"

text \<open>The binary exponent of a nonzero number: the \<open>e\<close> with \<open>2^e \<le> |x| < 2^(e+1)\<close>.\<close>

definition expo :: "rat \<Rightarrow> int" where
  "expo x = (if 1 \<le> \<bar>x\<bar> then bitlen \<lfloor>\<bar>x\<bar>\<rfloor> - 1 else - bitlen (\<lceil>1 / \<bar>x\<bar>\<rceil> - 1))"

text \<open>The nearest integer, the even one on a tie.\<close>

definition roundEven :: "rat \<Rightarrow> int" where
  "roundEven m =
     (let f = \<lfloor>m\<rfloor>; d = m - of_int f
      in if d < 1 / 2 then f else if 1 / 2 < d then f + 1 else if even f then f else f + 1)"

text \<open>
  The double nearest to \<open>x\<close>: 53 significant bits, spacing \<open>2^(e - 52)\<close> at exponent \<open>e\<close> and
  \<open>2^(- 1074)\<close> in the subnormal range.
\<close>

definition dbl :: "rat \<Rightarrow> rat" where
  "dbl x =
     (if x = 0 then 0
      else let u = pow2 (max (expo x - 52) (- 1074)) in of_int (roundEven (x / u)) * u)"

definition fadd :: "rat \<Rightarrow> rat \<Rightarrow> rat" where
  "fadd a b = dbl (a + b)"

definition fsub :: "rat \<Rightarrow> rat \<Rightarrow> rat" where
  "fsub a b = dbl (a - b)"

definition fmul :: "rat \<Rightarrow> rat \<Rightarrow> rat" where
  "fmul a b = dbl (a * b)"

definition fdiv :: "rat \<Rightarrow> rat \<Rightarrow> rat" where
  "fdiv a b = dbl (a / b)"

section \<open>Reconciliation: data model\<close>

datatype RuleType = TIME_WINDOW | TOLERANCE_BAND | CONTRACT_TERMS

datatype RuleUnit = DAYS | PERCENTAGE | FIXED

record ReconciliationRule =
  rule_type :: RuleType
  rule_value :: rat
  rule_unit :: RuleUnit

datatype InvoiceStatus =
  PENDING | MATCHED | PARTIALLY_MATCHED | DISPUTED | PAID | PARTIALLY_PAID

text \<open>
  The parsed \<^verbatim>\<open>lineItems\<close> JSON. A field that is absent (\<^verbatim>\<open>undefined\<close>) is \<open>None\<close>. The
  column itself is \<open>None\<close> when \<^verbatim>\<open>JSON.parse\<close> throws or yields \<^verbatim>\<open>null\<close> (the property
  access then throws inside the same \<^verbatim>\<open>try\<close>).
\<close>

record LineItems =
  energy :: "rat option"
  gas :: "rat option"
  fuel :: "rat option"

record Invoice =
  inv_id :: string
  invoiceId :: string
  contractId :: string
  issuerId :: string
  counterpartyId :: string
  periodStart :: int
  periodEnd :: int
  totalAmount :: rat
  lineItems :: "LineItems option"
  inv_status :: InvoiceStatus
  confidenceScore :: "rat option"
  matchedDeliveries :: "string list option"

record Delivery =
  deliveryId :: string
  del_contractId :: string
  del_timestamp :: int
  quantity :: rat

datatype Severity = HIGH | MEDIUM | LOW

record MatchedEntry =
  m_invoiceId :: string
  m_deliveryIds :: "string list"
  m_confidenceScore :: rat
  m_matchedAmount :: rat
  m_variance :: rat

record ExceptionEntry =
  e_invoiceId :: string
  e_reason :: string
  e_severity :: Severity
  e_recommendation :: string

record Summary =
  totalInvoices :: nat
  matchedInvoices :: nat
  exceptionalInvoices :: nat
  matchRate :: rat
  totalMatchedAmount :: rat

record ReconciliationResult =
  matched :: "MatchedEntry list"
  exceptions :: "ExceptionEntry list"
  summary :: Summary

section \<open>Reconciliation: \<^verbatim>\<open>performReconciliation\<close>\<close>

definition getDefaultRules :: "ReconciliationRule list" where
  "getDefaultRules =
     [\<lparr>rule_type = TIME_WINDOW, rule_value = 7, rule_unit = DAYS\<rparr>,
      \<lparr>rule_type = TOLERANCE_BAND, rule_value = 5, rule_unit = PERCENTAGE\<rparr>,
      \<lparr>rule_type = CONTRACT_TERMS, rule_value = 1, rule_unit = FIXED\<rparr>]"

definition timeWindowMs :: "ReconciliationRule list \<Rightarrow> rat" where
  "timeWindowMs rules =
     (case find (\<lambda>r. rule_type r = TIME_WINDOW) rules of
        Some timeWindowRule \<Rightarrow>
          fmul (fmul (fmul (fmul (rule_value timeWindowRule) 24) 60) 60) 1000
      | None \<Rightarrow> 7 * 24 * 60 * 60 * 1000)"

definition tolerancePercent :: "ReconciliationRule list \<Rightarrow> rat" where
  "tolerancePercent rules =
     (case find (\<lambda>r. rule_type r = TOLERANCE_BAND) rules of
        Some toleranceRule \<Rightarrow> rule_value toleranceRule
      | None \<Rightarrow> 5)"

definition matchingDeliveries ::
  "ReconciliationRule list \<Rightarrow> Delivery list \<Rightarrow> Invoice \<Rightarrow> Delivery list" where
  "matchingDeliveries rules deliveries invoice =
     filter (\<lambda>delivery.
        if del_contractId delivery \<noteq> contractId invoice then False
        else of_int (del_timestamp delivery)
               \<ge> fsub (of_int (periodStart invoice)) (timeWindowMs rules)
           \<and> of_int (del_timestamp delivery)
               \<le> fadd (of_int (periodEnd invoice)) (timeWindowMs rules))
       deliveries"

definition totalDelivered :: "Delivery list \<Rightarrow> rat" where
  "totalDelivered ds = foldl (\<lambda>sum d. fadd sum (quantity d)) 0 ds"

text \<open>\<^verbatim>\<open>a || b\<close> on an optional number: the left operand unless it is falsy (absent or 0).\<close>

fun js_or :: "rat option \<Rightarrow> rat \<Rightarrow> rat" where
  "js_or None b = b"
| "js_or (Some a) b = (if a \<noteq> 0 then a else b)"

definition expectedQuantity :: "Invoice \<Rightarrow> rat" where
  "expectedQuantity invoice =
     (case lineItems invoice of
        None \<Rightarrow> 0
      | Some li \<Rightarrow> js_or (energy li) (js_or (gas li) (js_or (fuel li) 0)))"

definition variance :: "rat \<Rightarrow> rat \<Rightarrow> rat" where
  "variance delivered expected =
     (if expected > 0 then \<bar>fmul (fdiv (fsub delivered expected) expected) 100\<bar> else 100)"

text \<open>
  \<^verbatim>\<open>x.toFixed(1)\<close> for \<open>|x| < 10^21\<close>: the sign, then the decimal with one fractional
  digit nearest to \<open>|x|\<close>, the larger one on a tie. (From \<open>10^21\<close> on JavaScript switches to
  exponent notation; a variance that large is outside the model.)
\<close>

definition digit :: "nat \<Rightarrow> char" where
  "digit n = ''0123456789'' ! (n mod 10)"

fun decimal :: "nat \<Rightarrow> string" where
  "decimal n = (if n < 10 then [digit n] else decimal (n div 10) @ [digit (n mod 10)])"

declare decimal.simps [simp del]

definition toFixed1 :: "rat \<Rightarrow> string" where
  "toFixed1 x =
     (let n = nat \<lfloor>\<bar>x\<bar> * 10 + 1 / 2\<rfloor>
      in (if x < 0 then ''-'' else '''') @ decimal (n div 10) @ ''.'' @ [digit (n mod 10)])"

text \<open>The body of the loop over the invoices: one entry is pushed on one of the two lists.\<close>

definition reconcileInvoice ::
  "ReconciliationRule list \<Rightarrow> Delivery list \<Rightarrow> Invoice \<Rightarrow> MatchedEntry + ExceptionEntry" where
  "reconcileInvoice rules deliveries invoice =
     (let md = matchingDeliveries rules deliveries invoice in
      if length md = 0 then
        Inr \<lparr>e_invoiceId = invoiceId invoice, e_reason = ''NO_MATCHING_DELIVERIES'',
             e_severity = HIGH,
             e_recommendation = ''Verify delivery data or invoice period''\<rparr>
      else
        let v = variance (totalDelivered md) (expectedQuantity invoice);
            score = max 0 (fsub 100 v)
        in if v \<le> tolerancePercent rules then
             Inl \<lparr>m_invoiceId = invoiceId invoice, m_deliveryIds = map deliveryId md,
                  m_confidenceScore = score, m_matchedAmount = totalAmount invoice,
                  m_variance = v\<rparr>
           else
             Inr \<lparr>e_invoiceId = invoiceId invoice, e_reason = ''QUANTITY_VARIANCE'',
                  e_severity = (if v > 20 then HIGH else if v > 10 then MEDIUM else LOW),
                  e_recommendation =
                    ''Quantity variance of '' @ toFixed1 v @ ''% exceeds tolerance''\<rparr>)"

fun reconcileLoop ::
  "ReconciliationRule list \<Rightarrow> Delivery list \<Rightarrow> Invoice list \<Rightarrow>
   MatchedEntry list \<times> ExceptionEntry list \<Rightarrow> MatchedEntry list \<times> ExceptionEntry list" where
  "reconcileLoop rules deliveries [] acc = acc"
| "reconcileLoop rules deliveries (invoice # rest) (ms, es) =
     (case reconcileInvoice rules deliveries invoice of
        Inl m \<Rightarrow> reconcileLoop rules deliveries rest (ms @ [m], es)
      | Inr e \<Rightarrow> reconcileLoop rules deliveries rest (ms, es @ [e]))"

definition performReconciliation ::
  "Invoice list \<Rightarrow> Delivery list \<Rightarrow> ReconciliationRule list \<Rightarrow> ReconciliationResult" where
  "performReconciliation invoices deliveries rules =
     (let (ms, es) = reconcileLoop rules deliveries invoices ([], [])
      in \<lparr>matched = ms, exceptions = es,
          summary = \<lparr>totalInvoices = length invoices,
                     matchedInvoices = length ms,
                     exceptionalInvoices = length es,
                     matchRate = (if length invoices > 0
                                  then fmul (fdiv (of_nat (length ms))
                                               (of_nat (length invoices))) 100
                                  else 0),
                     totalMatchedAmount = foldl (\<lambda>sum m. fadd sum (m_matchedAmount m)) 0 ms\<rparr>\<rparr>)"

section \<open>Netting: data model\<close>

record Party =
  p_id :: string
  p_name :: string

datatype PaymentStatus = PAY_PENDING | PROCESSING | COMPLETED | PAY_FAILED | REVERSED

record Payment =
  paymentId :: string
  pay_payerId :: string
  pay_payeeId :: string
  pay_amount :: rat
  pay_currency :: string
  valueDate :: int
  pay_bankReference :: "string option"
  pay_status :: PaymentStatus
  settlementBatchId :: "string option"

text \<open>
  An invoice as the netting query returns it: the row with the \<^verbatim>\<open>include\<close>d issuer,
  counterparty and payments (the query keeps the \<^verbatim>\<open>COMPLETED\<close> payments only).
\<close>

record NettingInvoice = Invoice +
  issuer :: Party
  counterparty :: Party
  payments :: "Payment list"

record NettingPosition =
  partyId :: string
  partyName :: string
  totalReceivable :: rat
  totalPayable :: rat
  netPosition :: rat

record SettlementLeg =
  payerId :: string
  payerName :: string
  payeeId :: string
  payeeName :: string
  amount :: rat
  currency :: string

section \<open>Netting: \<^verbatim>\<open>calculateNettingPositions\<close>\<close>

text \<open>
  A JavaScript \<^verbatim>\<open>Map\<close> keeps its entries in insertion order: an association list, with
  \<^verbatim>\<open>has\<close>, \<^verbatim>\<open>set\<close> and the update of the object that \<^verbatim>\<open>get\<close> returns.
\<close>

type_synonym PositionMap = "(string \<times> NettingPosition) list"

definition map_has :: "string \<Rightarrow> PositionMap \<Rightarrow> bool" where
  "map_has k m = (map_of m k \<noteq> None)"

fun map_set :: "string \<Rightarrow> NettingPosition \<Rightarrow> PositionMap \<Rightarrow> PositionMap" where
  "map_set k v [] = [(k, v)]"
| "map_set k v ((k', v') # m) = (if k' = k then (k, v) # m else (k', v') # map_set k v m)"

fun map_modify ::
  "string \<Rightarrow> (NettingPosition \<Rightarrow> NettingPosition) \<Rightarrow> PositionMap \<Rightarrow> PositionMap" where
  "map_modify k f [] = []"
| "map_modify k f ((k', v') # m) =
     (if k' = k then (k', f v') # m else (k', v') # map_modify k f m)"

definition ensureParty :: "Party \<Rightarrow> PositionMap \<Rightarrow> PositionMap" where
  "ensureParty party positionMap =
     (if \<not> map_has (p_id party) positionMap then
        map_set (p_id party)
          \<lparr>partyId = p_id party, partyName = p_name party,
           totalReceivable = 0, totalPayable = 0, netPosition = 0\<rparr> positionMap
      else positionMap)"

definition outstandingOf :: "NettingInvoice \<Rightarrow> rat" where
  "outstandingOf invoice =
     (let totalPaid = foldl (\<lambda>sum payment. fadd sum (pay_amount payment)) 0 (payments invoice)
      in fsub (totalAmount invoice) totalPaid)"

text \<open>The body of the loop over the invoices.\<close>

definition addInvoice :: "NettingInvoice \<Rightarrow> PositionMap \<Rightarrow> PositionMap" where
  "addInvoice invoice positionMap =
     (let outstanding = outstandingOf invoice in
      if outstanding \<le> 0 then positionMap
      else
        let issuerKey = p_id (issuer invoice);
            pm1 = ensureParty (issuer invoice) positionMap;
            pm2 = map_modify issuerKey
                    (\<lambda>issuerPos. issuerPos
                       \<lparr>totalReceivable := fadd (totalReceivable issuerPos) outstanding,
                        netPosition := fadd (netPosition issuerPos) outstanding\<rparr>) pm1;
            counterpartyKey = p_id (counterparty invoice);
            pm3 = ensureParty (counterparty invoice) pm2
        in map_modify counterpartyKey
             (\<lambda>counterpartyPos. counterpartyPos
                \<lparr>totalPayable := fadd (totalPayable counterpartyPos) outstanding,
                 netPosition := fsub (netPosition counterpartyPos) outstanding\<rparr>) pm3)"

definition calculateNettingPositions :: "NettingInvoice list \<Rightarrow> NettingPosition list" where
  "calculateNettingPositions invoices = map snd (fold addInvoice invoices [])"

section \<open>Netting: \<^verbatim>\<open>generateSettlementLegs\<close>\<close>








section \<open>The database\<close>

text \<open>
  The tables the routes read and write through the ORM client. The schema file is not
  among the sources, so uniqueness constraints are not modelled; \<^verbatim>\<open>updateMany\<close> updates every
  row that meets the condition and \<^verbatim>\<open>findUnique\<close> returns the first one.
\<close>

datatype DisputeStatus =
  OPEN | UNDER_REVIEW | EVIDENCE_REQUESTED | PARTIALLY_ACCEPTED | RESOLVED | ESCALATED | CLOSED

record Dispute =
  disputeId :: string
  dsp_invoiceId :: string
  dsp_contractId :: string
  raisedById :: string
  receivedById :: string
  reasonCode :: string
  description :: string
  dsp_status :: DisputeStatus
  slaDeadline :: int

datatype BatchStatus = COMPUTED | APPROVED | EXECUTED | BATCH_FAILED | REJECTED

record SettlementBatch =
  batchId :: string
  period :: string
  fxRate :: rat
  totalNetAmount :: rat
  batch_status :: BatchStatus
  smartContractTxId :: "string option"
  executedAt :: "int option"

record AuditLog =
  action :: string
  entityType :: string
  entityId :: string
  newValues :: string
  log_timestamp :: int

record User =
  user_id :: string
  user_role :: string

record Db =
  invoiceTable :: "Invoice list"
  disputeTable :: "Dispute list"
  settlementBatchTable :: "SettlementBatch list"
  paymentTable :: "Payment list"
  auditLogTable :: "AuditLog list"
  userTable :: "User list"

section \<open>Reconciliation: \<^verbatim>\<open>updateInvoiceStatuses\<close>\<close>

text \<open>
  Modelled from the spec: the default of the \<^verbatim>\<open>status\<close> column of the Dispute table. The
  \<^verbatim>\<open>create\<close> call of \<^verbatim>\<open>updateInvoiceStatuses\<close> does not set the column and the schema that
  declares its default is not among the sources; the specification gives the status of an
  automatically created dispute as \<open>OPEN\<close> (the other routes that create a dispute set
  \<open>OPEN\<close> explicitly).
\<close>

definition disputeStatusDefault :: DisputeStatus where
  "disputeStatusDefault = OPEN"

definition sevenDaysMs :: int where
  "sevenDaysMs = 7 * 24 * 60 * 60 * 1000"

text \<open>The body of the first loop: \<^verbatim>\<open>updateMany\<close> on the invoices with the entry's id.\<close>

definition markMatched :: "MatchedEntry \<Rightarrow> Db \<Rightarrow> Db" where
  "markMatched match db =
     db\<lparr>invoiceTable :=
          map (\<lambda>row. if invoiceId row = m_invoiceId match
                      then row\<lparr>inv_status := MATCHED,
                               confidenceScore := Some (m_confidenceScore match),
                               matchedDeliveries := Some (m_deliveryIds match)\<rparr>
                      else row) (invoiceTable db)\<rparr>"

text \<open>
  The body of the second loop. \<open>now\<close> is the reading of \<^verbatim>\<open>Date.now()\<close>; the model takes one
  reading for the whole call.
\<close>

definition applyException :: "int \<Rightarrow> ExceptionEntry \<Rightarrow> Db \<Rightarrow> Db" where
  "applyException now exception db =
     (let db1 = db\<lparr>invoiceTable :=
                     map (\<lambda>row. if invoiceId row = e_invoiceId exception
                                 then row\<lparr>inv_status := PARTIALLY_MATCHED\<rparr>
                                 else row) (invoiceTable db)\<rparr>
      in if e_severity exception = HIGH then
           (case find (\<lambda>row. invoiceId row = e_invoiceId exception) (invoiceTable db1) of
              Some invoice \<Rightarrow>
                db1\<lparr>disputeTable := disputeTable db1 @
                      [\<lparr>disputeId = ''DSP-'' @ decimal (nat now),
                        dsp_invoiceId = inv_id invoice,
                        dsp_contractId = contractId invoice,
                        raisedById = counterpartyId invoice,
                        receivedById = issuerId invoice,
                        reasonCode = ''QUANTITY_VARIANCE'',
                        description = e_recommendation exception,
                        dsp_status = disputeStatusDefault,
                        slaDeadline = now + sevenDaysMs\<rparr>]\<rparr>
            | None \<Rightarrow> db1)
         else db1)"

definition updateInvoiceStatuses ::
  "int \<Rightarrow> MatchedEntry list \<Rightarrow> ExceptionEntry list \<Rightarrow> Db \<Rightarrow> Db" where
  "updateInvoiceStatuses now ms es db = fold (applyException now) es (fold markMatched ms db)"

section \<open>The ledger route: \<^verbatim>\<open>approveSettlement\<close> and \<^verbatim>\<open>executeSettlement\<close>\<close>

datatype ContractType =
  INVOICE_REGISTRATION | DELIVERY_LINK | DISPUTE_OPEN | SETTLEMENT_APPROVAL | SETTLEMENT_EXECUTION

datatype TxStatus = TX_PENDING | CONFIRMED | TX_FAILED

text \<open>A settlement leg as the execution request carries it.\<close>

record ExecutionLeg = SettlementLeg +
  bankReference :: "string option"

text \<open>The request bodies (\<^verbatim>\<open>settlementData\<close>, \<^verbatim>\<open>executionData\<close>).\<close>

record SettlementData =
  sd_batchId :: string
  sd_approvers :: "string list"
  sd_totalAmount :: rat
  sd_netPositions :: "NettingPosition list"
  sd_approvals :: "string list"

record ExecutionRequest =
  er_batchId :: string
  er_batchIdId :: "string option"
  er_parties :: "string list"
  er_settlementLegs :: "ExecutionLeg list"
  er_totalAmount :: rat
  er_bankReferences :: "string list"
  er_executionTime :: int

datatype TxData =
    ApprovalData string rat "NettingPosition list" "string list"
  | ExecutionData string "ExecutionLeg list" rat "string list" int

record SmartContractTransaction =
  txId :: string
  contractType :: ContractType
  parties :: "string list"
  tx_data :: TxData
  tx_hash :: string
  tx_timestamp :: int
  blockNumber :: nat
  tx_status :: TxStatus

record BlockchainState =
  transactions :: "SmartContractTransaction list"
  currentBlock :: nat
  consensus :: "(string \<times> bool) list"

text \<open>
  What a call draws from outside, one field for each place where the source reads the clock
  or the random generator: the reading of \<^verbatim>\<open>Date.now()\<close> and the nine characters made from
  \<^verbatim>\<open>Math.random()\<close> in the transaction id, the SHA-256 digest of the request, the
  \<^verbatim>\<open>new Date()\<close> of the transaction timestamp, the outcome of \<^verbatim>\<open>simulateConsensus\<close> (which
  is \<^verbatim>\<open>Math.random() > 0.05\<close>), the \<^verbatim>\<open>new Date()\<close> stored as \<^verbatim>\<open>executedAt\<close>, and for the
  payment of leg number \<open>i\<close> the \<^verbatim>\<open>Date.now()\<close> and the six random characters of its id and
  the \<^verbatim>\<open>new Date()\<close> of its value date.
\<close>

record Env =
  env_now :: int
  env_random :: string
  env_hash :: string
  env_timestamp :: int
  env_consensus :: bool
  env_executedAt :: int
  env_legNow :: "nat \<Rightarrow> int"
  env_legRandom :: "nat \<Rightarrow> string"
  env_legDate :: "nat \<Rightarrow> int"

record World =
  db :: Db
  blockchainState :: BlockchainState

record ChainResponse =
  success :: bool
  transaction :: SmartContractTransaction
  message :: string

text \<open>\<^verbatim>\<open>Math.ceil(approvers.length * 0.67)\<close>: the product is a double product.\<close>

definition requiredApprovals :: "string list \<Rightarrow> int" where
  "requiredApprovals approvers = \<lceil>fmul (of_nat (length approvers)) (dbl (67 / 100))\<rceil>"

definition approveSettlement :: "Env \<Rightarrow> SettlementData \<Rightarrow> World \<Rightarrow> ChainResponse \<times> World" where
  "approveSettlement env settlementData w =
     (let txId' = ''TX_APP_'' @ decimal (nat (env_now env)) @ ''_'' @ env_random env;
          tx = \<lparr>txId = txId', contractType = SETTLEMENT_APPROVAL,
                parties = sd_approvers settlementData,
                tx_data = ApprovalData (sd_batchId settlementData) (sd_totalAmount settlementData)
                            (sd_netPositions settlementData) (sd_approvals settlementData),
                tx_hash = env_hash env, tx_timestamp = env_timestamp env,
                blockNumber = currentBlock (blockchainState w) + 1, tx_status = TX_PENDING\<rparr>;
          hasQuorum =
            (int (length (sd_approvals settlementData))
               \<ge> requiredApprovals (sd_approvers settlementData));
          consensus' = (env_consensus env \<and> hasQuorum);
          tx' = tx\<lparr>tx_status := (if consensus' then CONFIRMED else TX_FAILED)\<rparr>
      in if consensus' then
           (\<lparr>success = True, transaction = tx', message = ''Settlement approved on blockchain''\<rparr>,
            w\<lparr>blockchainState := (blockchainState w)
                  \<lparr>transactions := transactions (blockchainState w) @ [tx'],
                   currentBlock := currentBlock (blockchainState w) + 1\<rparr>,
              db := (db w)\<lparr>settlementBatchTable :=
                       map (\<lambda>b. if batchId b = sd_batchId settlementData
                                 then b\<lparr>batch_status := APPROVED,
                                        smartContractTxId := Some txId'\<rparr>
                                 else b) (settlementBatchTable (db w))\<rparr>\<rparr>)
         else
           (\<lparr>success = False, transaction = tx',
             message = ''Insufficient approvals or consensus failed''\<rparr>, w))"

text \<open>The payment row that \<^verbatim>\<open>executeSettlement\<close> creates for leg number \<open>i\<close>.\<close>

definition paymentOfLeg :: "Env \<Rightarrow> ExecutionRequest \<Rightarrow> nat \<Rightarrow> ExecutionLeg \<Rightarrow> Payment" where
  "paymentOfLeg env executionData i leg =
     \<lparr>paymentId = ''PAY_SETT_'' @ decimal (nat (env_legNow env i)) @ ''_'' @ env_legRandom env i,
      pay_payerId = payerId leg, pay_payeeId = payeeId leg, pay_amount = amount leg,
      pay_currency = currency leg, valueDate = env_legDate env i,
      pay_bankReference = bankReference leg, pay_status = COMPLETED,
      settlementBatchId = er_batchIdId executionData\<rparr>"

definition executeSettlement :: "Env \<Rightarrow> ExecutionRequest \<Rightarrow> World \<Rightarrow> ChainResponse \<times> World" where
  "executeSettlement env executionData w =
     (let txId' = ''TX_EXEC_'' @ decimal (nat (env_now env)) @ ''_'' @ env_random env;
          tx = \<lparr>txId = txId', contractType = SETTLEMENT_EXECUTION,
                parties = er_parties executionData,
                tx_data = ExecutionData (er_batchId executionData)
                            (er_settlementLegs executionData) (er_totalAmount executionData)
                            (er_bankReferences executionData) (er_executionTime executionData),
                tx_hash = env_hash env, tx_timestamp = env_timestamp env,
                blockNumber = currentBlock (blockchainState w) + 1, tx_status = TX_PENDING\<rparr>;
          consensus' = env_consensus env;
          tx' = tx\<lparr>tx_status := (if consensus' then CONFIRMED else TX_FAILED)\<rparr>
      in if consensus' then
           (\<lparr>success = True, transaction = tx', message = ''Settlement executed on blockchain''\<rparr>,
            w\<lparr>blockchainState := (blockchainState w)
                  \<lparr>transactions := transactions (blockchainState w) @ [tx'],
                   currentBlock := currentBlock (blockchainState w) + 1\<rparr>,
              db := (db w)\<lparr>settlementBatchTable :=
                       map (\<lambda>b. if batchId b = er_batchId executionData
                                 then b\<lparr>batch_status := EXECUTED,
                                        executedAt := Some (env_executedAt env)\<rparr>
                                 else b) (settlementBatchTable (db w)),
                     paymentTable := paymentTable (db w) @
                       map (\<lambda>(i, leg). paymentOfLeg env executionData i leg)
                         (enumerate 0 (er_settlementLegs executionData))\<rparr>\<rparr>)
         else
           (\<lparr>success = False, transaction = tx', message = ''Consensus failed''\<rparr>, w))"

section \<open>The treasury route: \<^verbatim>\<open>approveSettlement\<close> and \<^verbatim>\<open>executeSettlement\<close>\<close>

text \<open>
  The helper functions at the end of the treasury route are placeholders with fixed results
  and empty bodies. The model takes those whose result steers the two operations as
  parameters, so that every branch can be stated, and records the values the source gives
  them as \<open>treasuryPlaceholders\<close>. The placeholders without a result (\<^verbatim>\<open>recordApproval\<close>,
  \<^verbatim>\<open>triggerBlockchainApproval\<close>, \<^verbatim>\<open>triggerBlockchainExecution\<close>, \<^verbatim>\<open>releaseFunds\<close>,
  \<^verbatim>\<open>rollbackSettlement\<close>) have empty bodies and change nothing.
\<close>

record ReserveRequest =
  rr_amount :: rat
  rr_currency :: string
  rr_reference :: string
  rr_reservePeriod :: int

record Approval =
  ap_userId :: string
  ap_role :: string

record Helpers =
  checkExistingApproval :: "string \<Rightarrow> string \<Rightarrow> bool"
  getApprovals :: "string \<Rightarrow> Approval list"
  calculateNetPositions :: "string \<Rightarrow> NettingPosition list"
  generateLegs :: "NettingPosition list \<Rightarrow> SettlementLeg list"
  reserveFunds :: "ReserveRequest \<Rightarrow> bool"
  executeSettlementLeg :: "SettlementLeg \<Rightarrow> string \<Rightarrow> bool"

definition treasuryPlaceholders :: Helpers where
  "treasuryPlaceholders =
     \<lparr>checkExistingApproval = (\<lambda>batch user. False),
      getApprovals = (\<lambda>batch. []),
      calculateNetPositions = (\<lambda>period.
        [\<lparr>partyId = ''1'', partyName = ''ECG'', totalReceivable = 0, totalPayable = 0,
          netPosition = - 2345678900\<rparr>,
         \<lparr>partyId = ''2'', partyName = ''VRA'', totalReceivable = 0, totalPayable = 0,
          netPosition = 1234567890\<rparr>,
         \<lparr>partyId = ''3'', partyName = ''IPP Alpha'', totalReceivable = 0, totalPayable = 0,
          netPosition = 567890123\<rparr>]),
      generateLegs = (\<lambda>positions. []),
      reserveFunds = (\<lambda>request. True),
      executeSettlementLeg = (\<lambda>leg batch. True)\<rparr>"

datatype TreasuryError =
  InsufficientAuthority | AlreadyApproved | SettlementNotApproved | InsufficientEscrowFunds

record ApprovalRequest =
  ar_batchId :: string
  ar_userId :: string
  ar_userName :: string
  ar_role :: string
  ar_signature :: string

record ApprovalResult =
  quorumReached :: bool
  approvalsCount :: nat
  requiredApprovalsCount :: nat

definition totalRequiredApprovers :: nat where
  "totalRequiredApprovers = 3"

definition treasuryApproveSettlement ::
  "Helpers \<Rightarrow> ApprovalRequest \<Rightarrow> Db \<Rightarrow> (TreasuryError + ApprovalResult) \<times> Db" where
  "treasuryApproveSettlement h req d =
     (case find (\<lambda>u. user_id u = ar_userId req) (userTable d) of
        None \<Rightarrow> (Inl InsufficientAuthority, d)
      | Some user \<Rightarrow>
          if user_role user \<noteq> ''TREASURY'' \<and> user_role user \<noteq> ''MINISTER''
          then (Inl InsufficientAuthority, d)
          else if checkExistingApproval h (ar_batchId req) (ar_userId req)
          then (Inl AlreadyApproved, d)
          else
            let approvals = getApprovals h (ar_batchId req);
                quorum = (length approvals \<ge> totalRequiredApprovers);
                d' = (if quorum
                      then d\<lparr>settlementBatchTable :=
                               map (\<lambda>b. if batchId b = ar_batchId req
                                         then b\<lparr>batch_status := APPROVED\<rparr> else b)
                                 (settlementBatchTable d)\<rparr>
                      else d)
            in (Inr \<lparr>quorumReached = quorum, approvalsCount = length approvals,
                     requiredApprovalsCount = totalRequiredApprovers\<rparr>, d'))"

record ExecutionResult =
  allSuccessful :: bool
  executionResults :: "bool list"
  ex_totalAmount :: rat
  legsExecuted :: nat
  totalLegs :: nat

definition reserveRequestFor :: "string \<Rightarrow> SettlementLeg list \<Rightarrow> ReserveRequest" where
  "reserveRequestFor batch legs =
     \<lparr>rr_amount = foldl (\<lambda>sum leg. fadd sum (amount leg)) 0 legs, rr_currency = ''GHS'',
      rr_reference = ''SETTLEMENT-'' @ batch, rr_reservePeriod = 24 * 60 * 60 * 1000\<rparr>"

definition treasuryExecuteSettlement ::
  "Helpers \<Rightarrow> int \<Rightarrow> string \<Rightarrow> Db \<Rightarrow> (TreasuryError + ExecutionResult) \<times> Db" where
  "treasuryExecuteSettlement h now batch d =
     (case find (\<lambda>b. batchId b = batch) (settlementBatchTable d) of
        None \<Rightarrow> (Inl SettlementNotApproved, d)
      | Some b \<Rightarrow>
          if batch_status b \<noteq> APPROVED then (Inl SettlementNotApproved, d)
          else
            let netPositions = calculateNetPositions h (period b);
                settlementLegs = generateLegs h netPositions
            in if \<not> reserveFunds h (reserveRequestFor batch settlementLegs)
               then (Inl InsufficientEscrowFunds, d)
               else
                 let results = map (\<lambda>leg. executeSettlementLeg h leg batch) settlementLegs;
                     ok = list_all (\<lambda>r. r) results;
                     d' = (if ok
                           then d\<lparr>settlementBatchTable :=
                                    map (\<lambda>b. if batchId b = batch
                                              then b\<lparr>batch_status := EXECUTED,
                                                     executedAt := Some now\<rparr> else b)
                                      (settlementBatchTable d)\<rparr>
                           else d)
                 in (Inr \<lparr>allSuccessful = ok, executionResults = results,
                          ex_totalAmount = rr_amount (reserveRequestFor batch settlementLegs),
                          legsExecuted = length (filter (\<lambda>r. r) results),
                          totalLegs = length settlementLegs\<rparr>, d'))"

section \<open>Reconciliation: auxiliary notions for the proofs\<close>

text \<open>The columns of an invoice that \<^verbatim>\<open>updateInvoiceStatuses\<close> reads and never writes.\<close>

definition keyFields :: "Invoice \<Rightarrow> string \<times> string \<times> string \<times> string \<times> string" where
  "keyFields row = (invoiceId row, inv_id row, contractId row, counterpartyId row, issuerId row)"

text \<open>The dispute row created for a \<open>HIGH\<close> exception on a given invoice.\<close>

definition disputeOf :: "int \<Rightarrow> ExceptionEntry \<Rightarrow> Invoice \<Rightarrow> Dispute" where
  "disputeOf now exception invoice =
     \<lparr>disputeId = ''DSP-'' @ decimal (nat now),
      dsp_invoiceId = inv_id invoice,
      dsp_contractId = contractId invoice,
      raisedById = counterpartyId invoice,
      receivedById = issuerId invoice,
      reasonCode = ''QUANTITY_VARIANCE'',
      description = e_recommendation exception,
      dsp_status = disputeStatusDefault,
      slaDeadline = now + sevenDaysMs\<rparr>"

text \<open>The dispute rows that a list of exceptions adds, read against a given invoice table.\<close>

definition newDisputes :: "int \<Rightarrow> Invoice list \<Rightarrow> ExceptionEntry list \<Rightarrow> Dispute list" where
  "newDisputes now table es =
     concat (map (\<lambda>e. if e_severity e = HIGH
                       then (case find (\<lambda>row. invoiceId row = e_invoiceId e) table of
                               Some invoice \<Rightarrow> [disputeOf now e invoice] | None \<Rightarrow> [])
                       else []) es)"

text \<open>Every row whose invoice id is in the set has the status \<open>PARTIALLY_MATCHED\<close>.\<close>

definition allPartially :: "string set \<Rightarrow> Invoice list \<Rightarrow> bool" where
  "allPartially ids table =
     (\<forall>row \<in> set table. invoiceId row \<in> ids \<longrightarrow> inv_status row = PARTIALLY_MATCHED)"

section \<open>Netting: auxiliary notions for the proofs\<close>









section \<open>Example data\<close>

text \<open>Concrete rows on which the statements below are evaluated.\<close>

definition exampleInvoice :: "string \<Rightarrow> string \<Rightarrow> rat option \<Rightarrow> Invoice" where
  "exampleInvoice iid cid e =
     \<lparr>inv_id = iid, invoiceId = ''INV-'' @ iid, contractId = cid, issuerId = ''VRA'',
      counterpartyId = ''ECG'', periodStart = 0, periodEnd = 86400000, totalAmount = 500,
      lineItems = Some \<lparr>energy = e, gas = None, fuel = None\<rparr>, inv_status = PENDING,
      confidenceScore = None, matchedDeliveries = None\<rparr>"

definition exampleDelivery :: "string \<Rightarrow> string \<Rightarrow> rat \<Rightarrow> Delivery" where
  "exampleDelivery did cid q =
     \<lparr>deliveryId = did, del_contractId = cid, del_timestamp = 3600000, quantity = q\<rparr>"


definition exampleNettingInvoice :: "string \<Rightarrow> string \<Rightarrow> rat \<Rightarrow> rat list \<Rightarrow> NettingInvoice" where
  "exampleNettingInvoice creditor debtor gross paid =
     Invoice.extend (exampleInvoice ''1'' ''K1'' None)
       \<lparr>issuer = \<lparr>p_id = creditor, p_name = creditor\<rparr>,
        counterparty = \<lparr>p_id = debtor, p_name = debtor\<rparr>,
        payments = map (\<lambda>a. \<lparr>paymentId = ''P'', pay_payerId = debtor, pay_payeeId = creditor,
                              pay_amount = a, pay_currency = ''GHS'', valueDate = 0,
                              pay_bankReference = None, pay_status = COMPLETED,
                              settlementBatchId = None\<rparr>) paid\<rparr>
       \<lparr>totalAmount := gross\<rparr>"

definition exampleBatch :: "BatchStatus \<Rightarrow> SettlementBatch" where
  "exampleBatch st =
     \<lparr>batchId = ''SB-1'', period = ''2024-01'', fxRate = 1, totalNetAmount = 60,
      batch_status = st, smartContractTxId = None, executedAt = None\<rparr>"

definition exampleDb :: "BatchStatus \<Rightarrow> Db" where
  "exampleDb st =
     \<lparr>invoiceTable = [exampleInvoice ''1'' ''K1'' (Some 1000)], disputeTable = [],
      settlementBatchTable = [exampleBatch st], paymentTable = [], auditLogTable = [],
      userTable = [\<lparr>user_id = ''u1'', user_role = ''TREASURY''\<rparr>]\<rparr>"

definition exampleException :: ExceptionEntry where
  "exampleException =
     \<lparr>e_invoiceId = ''INV-1'', e_reason = ''QUANTITY_VARIANCE'', e_severity = HIGH,
      e_recommendation = ''Quantity variance of 30.0% exceeds tolerance''\<rparr>"

definition exampleWorld :: "BatchStatus \<Rightarrow> World" where
  "exampleWorld st =
     \<lparr>db = exampleDb st,
      blockchainState = \<lparr>transactions = [], currentBlock = 0, consensus = []\<rparr>\<rparr>"

definition exampleEnv :: "bool \<Rightarrow> Env" where
  "exampleEnv ok =
     \<lparr>env_now = 1700000000000, env_random = ''k3v9q1x7z'', env_hash = ''9f2c'',
      env_timestamp = 1700000000001, env_consensus = ok, env_executedAt = 1700000000350,
      env_legNow = (\<lambda>i. 1700000000351 + int i), env_legRandom = (\<lambda>i. ''p7x2ka''),
      env_legDate = (\<lambda>i. 1700000000352 + int i)\<rparr>"

definition exampleApproval :: "string list \<Rightarrow> string list \<Rightarrow> SettlementData" where
  "exampleApproval approvers approvals =
     \<lparr>sd_batchId = ''SB-1'', sd_approvers = approvers, sd_totalAmount = 60,
      sd_netPositions = [], sd_approvals = approvals\<rparr>"

definition exampleExecution :: ExecutionRequest where
  "exampleExecution =
     \<lparr>er_batchId = ''SB-1'', er_batchIdId = None, er_parties = [''A'', ''C''],
      er_settlementLegs =
        [\<lparr>payerId = ''A'', payerName = ''A'', payeeId = ''C'', payeeName = ''C'', amount = 60,
          currency = ''GHS'', bankReference = None\<rparr>],
      er_totalAmount = 60, er_bankReferences = [], er_executionTime = 1700000000000\<rparr>"

definition exampleMatch :: MatchedEntry where
  "exampleMatch =
     \<lparr>m_invoiceId = ''INV-1'', m_deliveryIds = [''D1''], m_confidenceScore = 97,
      m_matchedAmount = 500, m_variance = 3\<rparr>"

section \<open>Double-precision arithmetic: properties\<close>












section \<open>Reconciliation: properties\<close>

lemma reconcileLoop_fst:
  "fst (reconcileLoop rules ds invs (ms, es)) =
     ms @ [m. Inl m \<leftarrow> map (reconcileInvoice rules ds) invs]"
  by (induction invs arbitrary: ms es) (auto split: sum.splits)

lemma reconcileLoop_snd:
  "snd (reconcileLoop rules ds invs (ms, es)) =
     es @ [e. Inr e \<leftarrow> map (reconcileInvoice rules ds) invs]"
  by (induction invs arbitrary: ms es) (auto split: sum.splits)

lemma matched_performReconciliation:
  "matched (performReconciliation invoices ds rules) =
     [m. Inl m \<leftarrow> map (reconcileInvoice rules ds) invoices]"
  using reconcileLoop_fst [of rules ds invoices "[]" "[]"]
  by (simp add: performReconciliation_def split_beta Let_def)

lemma exceptions_performReconciliation:
  "exceptions (performReconciliation invoices ds rules) =
     [e. Inr e \<leftarrow> map (reconcileInvoice rules ds) invoices]"
  using reconcileLoop_snd [of rules ds invoices "[]" "[]"]
  by (simp add: performReconciliation_def split_beta Let_def)

lemma set_matched:
  "set (matched (performReconciliation invoices ds rules)) =
     {m. \<exists>invoice \<in> set invoices. reconcileInvoice rules ds invoice = Inl m}"
  by (auto simp: matched_performReconciliation split: sum.splits)

lemma set_exceptions:
  "set (exceptions (performReconciliation invoices ds rules)) =
     {e. \<exists>invoice \<in> set invoices. reconcileInvoice rules ds invoice = Inr e}"
  by (auto simp: exceptions_performReconciliation split: sum.splits)

lemma reconcileInvoice_Inl_id:
  "reconcileInvoice rules ds invoice = Inl m \<Longrightarrow> m_invoiceId m = invoiceId invoice"
  by (auto simp: reconcileInvoice_def Let_def split: if_splits)

lemma reconcileInvoice_Inr_id:
  "reconcileInvoice rules ds invoice = Inr e \<Longrightarrow> e_invoiceId e = invoiceId invoice"
  by (auto simp: reconcileInvoice_def Let_def split: if_splits)

lemma mset_partition_ids:
  "mset (map m_invoiceId [m. Inl m \<leftarrow> map (reconcileInvoice rules ds) invoices]) +
   mset (map e_invoiceId [e. Inr e \<leftarrow> map (reconcileInvoice rules ds) invoices]) =
   mset (map invoiceId invoices)"
proof (induction invoices)
  case Nil
  show ?case by simp
next
  case (Cons invoice invoices)
  show ?case
  proof (cases "reconcileInvoice rules ds invoice")
    case (Inl m)
    with Cons reconcileInvoice_Inl_id [OF Inl] show ?thesis by simp
  next
    case (Inr e)
    with Cons reconcileInvoice_Inr_id [OF Inr] show ?thesis by simp
  qed
qed

lemma reconcileInvoice_none:
  "matchingDeliveries rules ds invoice = [] \<Longrightarrow>
   reconcileInvoice rules ds invoice =
     Inr \<lparr>e_invoiceId = invoiceId invoice, e_reason = ''NO_MATCHING_DELIVERIES'',
          e_severity = HIGH, e_recommendation = ''Verify delivery data or invoice period''\<rparr>"
  by (simp add: reconcileInvoice_def)

lemma reconcileInvoice_within:
  assumes "matchingDeliveries rules ds invoice \<noteq> []"
    and "variance (totalDelivered (matchingDeliveries rules ds invoice)) (expectedQuantity invoice)
         \<le> tolerancePercent rules"
  shows "reconcileInvoice rules ds invoice =
     Inl \<lparr>m_invoiceId = invoiceId invoice,
          m_deliveryIds = map deliveryId (matchingDeliveries rules ds invoice),
          m_confidenceScore = max 0 (fsub 100
            (variance (totalDelivered (matchingDeliveries rules ds invoice)) (expectedQuantity invoice))),
          m_matchedAmount = totalAmount invoice,
          m_variance =
            variance (totalDelivered (matchingDeliveries rules ds invoice)) (expectedQuantity invoice)\<rparr>"
  using assms by (simp add: reconcileInvoice_def Let_def)

lemma reconcileInvoice_beyond:
  assumes "matchingDeliveries rules ds invoice \<noteq> []"
    and "\<not> variance (totalDelivered (matchingDeliveries rules ds invoice)) (expectedQuantity invoice)
         \<le> tolerancePercent rules"
  shows "reconcileInvoice rules ds invoice =
     Inr \<lparr>e_invoiceId = invoiceId invoice, e_reason = ''QUANTITY_VARIANCE'',
          e_severity =
            (let v = variance (totalDelivered (matchingDeliveries rules ds invoice))
                       (expectedQuantity invoice)
             in if v > 20 then HIGH else if v > 10 then MEDIUM else LOW),
          e_recommendation = ''Quantity variance of '' @
            toFixed1 (variance (totalDelivered (matchingDeliveries rules ds invoice))
                       (expectedQuantity invoice)) @ ''% exceeds tolerance''\<rparr>"
  using assms by (simp add: reconcileInvoice_def Let_def)

text \<open>
  Claim C5, as the code has it. For every invoice with at least one matching delivery the
  variance is the double that \<^verbatim>\<open>Math.abs((totalDelivered - expectedQuantity) /
  expectedQuantity * 100)\<close> evaluates to, each of the three operations rounded, when
  \<open>expectedQuantity\<close> is positive, and \<open>100\<close> otherwise (the guard of the source is
  \<open>expectedQuantity > 0\<close>, so a quantity that is zero, absent, unparseable or negative gives
  \<open>100\<close>); the confidence score is \<open>max 0 (100 - variance)\<close>, the difference rounded; the
  invoice is pushed on the matched list when this computed variance is at most the
  tolerance and on the exception list otherwise; and every entry of the matched list stems
  from such an invoice.
\<close>

theorem variance_confidence_classification:
  "(\<forall>invoice \<in> set invoices. matchingDeliveries rules ds invoice \<noteq> [] \<longrightarrow>
      (let md = matchingDeliveries rules ds invoice;
           delivered = totalDelivered md;
           expected = expectedQuantity invoice;
           v = (if expected > 0 then \<bar>fmul (fdiv (fsub delivered expected) expected) 100\<bar>
                else 100)
       in if v \<le> tolerancePercent rules
          then \<lparr>m_invoiceId = invoiceId invoice, m_deliveryIds = map deliveryId md,
                m_confidenceScore = max 0 (fsub 100 v), m_matchedAmount = totalAmount invoice,
                m_variance = v\<rparr> \<in> set (matched (performReconciliation invoices ds rules))
          else \<exists>e \<in> set (exceptions (performReconciliation invoices ds rules)).
                 e_invoiceId e = invoiceId invoice \<and> e_reason e = ''QUANTITY_VARIANCE''))
   \<and> (\<forall>m \<in> set (matched (performReconciliation invoices ds rules)).
        \<exists>invoice \<in> set invoices. matchingDeliveries rules ds invoice \<noteq> [] \<and>
          (let md = matchingDeliveries rules ds invoice;
               delivered = totalDelivered md;
               expected = expectedQuantity invoice;
               v = (if expected > 0 then \<bar>fmul (fdiv (fsub delivered expected) expected) 100\<bar>
                else 100)
           in v \<le> tolerancePercent rules \<and>
              m = \<lparr>m_invoiceId = invoiceId invoice, m_deliveryIds = map deliveryId md,
                    m_confidenceScore = max 0 (fsub 100 v), m_matchedAmount = totalAmount invoice,
                    m_variance = v\<rparr>))"
proof (intro conjI ballI impI)
  fix invoice
  assume mem: "invoice \<in> set invoices" and some: "matchingDeliveries rules ds invoice \<noteq> []"
  let ?md = "matchingDeliveries rules ds invoice"
  let ?v = "variance (totalDelivered ?md) (expectedQuantity invoice)"
  have "if ?v \<le> tolerancePercent rules
     then \<lparr>m_invoiceId = invoiceId invoice, m_deliveryIds = map deliveryId ?md,
           m_confidenceScore = max 0 (fsub 100 ?v), m_matchedAmount = totalAmount invoice,
           m_variance = ?v\<rparr> \<in> set (matched (performReconciliation invoices ds rules))
     else \<exists>e \<in> set (exceptions (performReconciliation invoices ds rules)).
            e_invoiceId e = invoiceId invoice \<and> e_reason e = ''QUANTITY_VARIANCE''"
  proof (cases "?v \<le> tolerancePercent rules")
    case True
    from reconcileInvoice_within [OF some True] mem show ?thesis
      unfolding set_matched using True by auto
  next
    case False
    from reconcileInvoice_beyond [OF some False] mem show ?thesis
      unfolding set_exceptions using False by force
  qed
  then show "let md = ?md; delivered = totalDelivered md; expected = expectedQuantity invoice;
        v = (if expected > 0 then \<bar>fmul (fdiv (fsub delivered expected) expected) 100\<bar>
                else 100)
    in if v \<le> tolerancePercent rules
       then \<lparr>m_invoiceId = invoiceId invoice, m_deliveryIds = map deliveryId md,
             m_confidenceScore = max 0 (fsub 100 v), m_matchedAmount = totalAmount invoice,
             m_variance = v\<rparr> \<in> set (matched (performReconciliation invoices ds rules))
       else \<exists>e \<in> set (exceptions (performReconciliation invoices ds rules)).
              e_invoiceId e = invoiceId invoice \<and> e_reason e = ''QUANTITY_VARIANCE''"
    unfolding Let_def variance_def [symmetric] .
next
  fix m
  assume "m \<in> set (matched (performReconciliation invoices ds rules))"
  then obtain invoice where mem: "invoice \<in> set invoices"
    and r: "reconcileInvoice rules ds invoice = Inl m"
    unfolding set_matched by blast
  let ?md = "matchingDeliveries rules ds invoice"
  let ?v = "variance (totalDelivered ?md) (expectedQuantity invoice)"
  have some: "?md \<noteq> []"
    using r reconcileInvoice_none [of rules ds invoice] by auto
  have within: "?v \<le> tolerancePercent rules"
    using r reconcileInvoice_beyond [OF some] by auto
  have "m = \<lparr>m_invoiceId = invoiceId invoice, m_deliveryIds = map deliveryId ?md,
             m_confidenceScore = max 0 (fsub 100 ?v), m_matchedAmount = totalAmount invoice,
             m_variance = ?v\<rparr>"
    using r reconcileInvoice_within [OF some within] by simp
  with mem some within
  have "\<exists>invoice \<in> set invoices. matchingDeliveries rules ds invoice \<noteq> [] \<and>
      variance (totalDelivered (matchingDeliveries rules ds invoice)) (expectedQuantity invoice)
        \<le> tolerancePercent rules \<and>
      m = \<lparr>m_invoiceId = invoiceId invoice,
            m_deliveryIds = map deliveryId (matchingDeliveries rules ds invoice),
            m_confidenceScore = max 0 (fsub 100
              (variance (totalDelivered (matchingDeliveries rules ds invoice)) (expectedQuantity invoice))),
            m_matchedAmount = totalAmount invoice,
            m_variance =
              variance (totalDelivered (matchingDeliveries rules ds invoice)) (expectedQuantity invoice)\<rparr>"
    by blast
  then show "\<exists>invoice \<in> set invoices. matchingDeliveries rules ds invoice \<noteq> [] \<and>
          (let md = matchingDeliveries rules ds invoice;
               delivered = totalDelivered md;
               expected = expectedQuantity invoice;
               v = (if expected > 0 then \<bar>fmul (fdiv (fsub delivered expected) expected) 100\<bar>
                else 100)
           in v \<le> tolerancePercent rules \<and>
              m = \<lparr>m_invoiceId = invoiceId invoice, m_deliveryIds = map deliveryId md,
                    m_confidenceScore = max 0 (fsub 100 v), m_matchedAmount = totalAmount invoice,
                    m_variance = v\<rparr>)"
    unfolding Let_def variance_def [symmetric] .
qed

text \<open>Scenario 1 of the specification: 1000 declared, 1030 delivered, variance 3, score 97.\<close>

theorem variance_confidence_classification_witness:
  "matchingDeliveries getDefaultRules [exampleDelivery ''D1'' ''K1'' 1030]
     (exampleInvoice ''1'' ''K1'' (Some 1000)) \<noteq> []
   \<and> \<lparr>m_invoiceId = ''INV-1'', m_deliveryIds = [''D1''], m_confidenceScore = 97,
       m_matchedAmount = 500, m_variance = 3\<rparr>
     \<in> set (matched (performReconciliation [exampleInvoice ''1'' ''K1'' (Some 1000)]
          [exampleDelivery ''D1'' ''K1'' 1030] getDefaultRules))"
proof -
  let ?invoice = "exampleInvoice ''1'' ''K1'' (Some 1000)"
  let ?md = "matchingDeliveries getDefaultRules [exampleDelivery ''D1'' ''K1'' 1030] ?invoice"
  have some: "?md \<noteq> []" by code_simp
  have ids: "map deliveryId ?md = [''D1'']" by code_simp
  have delivered: "totalDelivered ?md = 1030" by code_simp
  have expected: "expectedQuantity ?invoice = 1000" by code_simp
  have v: "fmul (fdiv (fsub 1030 1000) 1000) 100 = 3" by code_simp
  have score: "fsub 100 3 = 97" by code_simp
  have band: "tolerancePercent getDefaultRules = 5" by code_simp
  have fields: "invoiceId ?invoice = ''INV-1''" "totalAmount ?invoice = 500"
    by (simp_all add: exampleInvoice_def)
  from variance_confidence_classification [of "[?invoice]" getDefaultRules
      "[exampleDelivery ''D1'' ''K1'' 1030]"] some
  show ?thesis
    by (simp add: Let_def ids delivered expected v score band fields)
qed

text \<open>
  The claim as worded puts an invoice whose variance equals the band on the matched list,
  and takes the quotient for every \<open>expectedQuantity\<close> other than 0. With 100 declared, 107
  delivered and a band of 7 the variance of the claim is 7, but the source computes
  \<open>(107 - 100) / 100 * 100\<close> in doubles as \<open>7.000000000000001\<close>, above the band, and raises a
  \<open>LOW\<close> exception. With a declared quantity of \<open>- 10\<close> and 5 delivered the quotient is
  \<open>- 150\<close>, within the band of 5, while the source sets the variance to 100 and raises a
  \<open>HIGH\<close> exception.
\<close>

theorem variance_classification_counterexample:
  "expectedQuantity (exampleInvoice ''1'' ''K1'' (Some 100)) = 100
   \<and> totalDelivered (matchingDeliveries
        [\<lparr>rule_type = TOLERANCE_BAND, rule_value = 7, rule_unit = PERCENTAGE\<rparr>]
        [exampleDelivery ''D1'' ''K1'' 107] (exampleInvoice ''1'' ''K1'' (Some 100))) = 107
   \<and> \<bar>107 - 100\<bar> / 100 * 100 = (7 :: rat)
   \<and> tolerancePercent [\<lparr>rule_type = TOLERANCE_BAND, rule_value = 7, rule_unit = PERCENTAGE\<rparr>] = 7
   \<and> variance 107 100 = 7 + 1 / 1125899906842624
   \<and> matched (performReconciliation [exampleInvoice ''1'' ''K1'' (Some 100)]
        [exampleDelivery ''D1'' ''K1'' 107]
        [\<lparr>rule_type = TOLERANCE_BAND, rule_value = 7, rule_unit = PERCENTAGE\<rparr>]) = []
   \<and> map (\<lambda>e. (e_invoiceId e, e_reason e, e_severity e))
        (exceptions (performReconciliation [exampleInvoice ''1'' ''K1'' (Some 100)]
          [exampleDelivery ''D1'' ''K1'' 107]
          [\<lparr>rule_type = TOLERANCE_BAND, rule_value = 7, rule_unit = PERCENTAGE\<rparr>]))
       = [(''INV-1'', ''QUANTITY_VARIANCE'', LOW)]
   \<and> expectedQuantity (exampleInvoice ''1'' ''K1'' (Some (- 10))) = - 10
   \<and> totalDelivered (matchingDeliveries getDefaultRules [exampleDelivery ''D1'' ''K1'' 5]
        (exampleInvoice ''1'' ''K1'' (Some (- 10)))) = 5
   \<and> \<bar>5 - (- 10)\<bar> / (- 10) * 100 = (- 150 :: rat)
   \<and> (- 150 :: rat) \<le> tolerancePercent getDefaultRules
   \<and> variance 5 (- 10) = 100
   \<and> matched (performReconciliation [exampleInvoice ''1'' ''K1'' (Some (- 10))]
        [exampleDelivery ''D1'' ''K1'' 5] getDefaultRules) = []
   \<and> map e_severity (exceptions (performReconciliation [exampleInvoice ''1'' ''K1'' (Some (- 10))]
        [exampleDelivery ''D1'' ''K1'' 5] getDefaultRules)) = [HIGH]"
  by code_simp

text \<open>
  Claim C6. An invoice with no delivery of its contract inside the time window gets an
  exception with reason \<open>NO_MATCHING_DELIVERIES\<close> and severity \<open>HIGH\<close>; an invoice with
  deliveries whose variance exceeds the tolerance gets an exception with reason
  \<open>QUANTITY_VARIANCE\<close> and severity \<open>HIGH\<close> above 20, \<open>MEDIUM\<close> above 10 and up to 20, \<open>LOW\<close>
  otherwise; and the exception list holds no other entries.
\<close>

theorem exception_severity_assignment:
  "(\<forall>invoice \<in> set invoices.
      let md = matchingDeliveries rules ds invoice;
          v = variance (totalDelivered md) (expectedQuantity invoice)
      in (md = [] \<longrightarrow>
            (\<exists>e \<in> set (exceptions (performReconciliation invoices ds rules)).
               e_invoiceId e = invoiceId invoice \<and> e_reason e = ''NO_MATCHING_DELIVERIES'' \<and>
               e_severity e = HIGH))
       \<and> (md \<noteq> [] \<and> v > tolerancePercent rules \<longrightarrow>
            (\<exists>e \<in> set (exceptions (performReconciliation invoices ds rules)).
               e_invoiceId e = invoiceId invoice \<and> e_reason e = ''QUANTITY_VARIANCE'' \<and>
               e_severity e = (if v > 20 then HIGH else if v > 10 then MEDIUM else LOW))))
   \<and> (\<forall>e \<in> set (exceptions (performReconciliation invoices ds rules)).
        \<exists>invoice \<in> set invoices.
          let md = matchingDeliveries rules ds invoice;
              v = variance (totalDelivered md) (expectedQuantity invoice)
          in e_invoiceId e = invoiceId invoice \<and>
             (if md = [] then e_reason e = ''NO_MATCHING_DELIVERIES'' \<and> e_severity e = HIGH
              else v > tolerancePercent rules \<and> e_reason e = ''QUANTITY_VARIANCE'' \<and>
                   e_severity e = (if v > 20 then HIGH else if v > 10 then MEDIUM else LOW)))"
proof (intro conjI ballI)
  fix invoice
  assume mem: "invoice \<in> set invoices"
  let ?md = "matchingDeliveries rules ds invoice"
  let ?v = "variance (totalDelivered ?md) (expectedQuantity invoice)"
  let ?E = "set (exceptions (performReconciliation invoices ds rules))"
  have a: "\<exists>e \<in> ?E. e_invoiceId e = invoiceId invoice \<and> e_reason e = ''NO_MATCHING_DELIVERIES'' \<and>
      e_severity e = HIGH" if "?md = []"
    using reconcileInvoice_none [OF that] mem unfolding set_exceptions by force
  have b: "\<exists>e \<in> ?E. e_invoiceId e = invoiceId invoice \<and> e_reason e = ''QUANTITY_VARIANCE'' \<and>
      e_severity e = (if ?v > 20 then HIGH else if ?v > 10 then MEDIUM else LOW)"
    if "?md \<noteq> []" "?v > tolerancePercent rules"
  proof -
    from that have "\<not> ?v \<le> tolerancePercent rules" by simp
    from reconcileInvoice_beyond [OF that(1) this] mem show ?thesis
      unfolding set_exceptions by (force simp: Let_def)
  qed
  from a b show "let md = ?md; v = variance (totalDelivered md) (expectedQuantity invoice)
      in (md = [] \<longrightarrow> (\<exists>e \<in> ?E. e_invoiceId e = invoiceId invoice \<and>
               e_reason e = ''NO_MATCHING_DELIVERIES'' \<and> e_severity e = HIGH))
       \<and> (md \<noteq> [] \<and> v > tolerancePercent rules \<longrightarrow>
            (\<exists>e \<in> ?E. e_invoiceId e = invoiceId invoice \<and> e_reason e = ''QUANTITY_VARIANCE'' \<and>
               e_severity e = (if v > 20 then HIGH else if v > 10 then MEDIUM else LOW)))"
    by (simp add: Let_def)
next
  fix e
  assume "e \<in> set (exceptions (performReconciliation invoices ds rules))"
  then obtain invoice where mem: "invoice \<in> set invoices"
    and r: "reconcileInvoice rules ds invoice = Inr e"
    unfolding set_exceptions by blast
  let ?md = "matchingDeliveries rules ds invoice"
  let ?v = "variance (totalDelivered ?md) (expectedQuantity invoice)"
  have "e_invoiceId e = invoiceId invoice \<and>
     (if ?md = [] then e_reason e = ''NO_MATCHING_DELIVERIES'' \<and> e_severity e = HIGH
      else ?v > tolerancePercent rules \<and> e_reason e = ''QUANTITY_VARIANCE'' \<and>
           e_severity e = (if ?v > 20 then HIGH else if ?v > 10 then MEDIUM else LOW))"
  proof (cases "?md = []")
    case True
    from reconcileInvoice_none [OF True] r show ?thesis using True by auto
  next
    case False
    show ?thesis
    proof (cases "?v \<le> tolerancePercent rules")
      case True
      from reconcileInvoice_within [OF False True] r show ?thesis by simp
    next
      case beyond: False
      from reconcileInvoice_beyond [OF False beyond] r show ?thesis
        using False beyond by (auto simp: Let_def)
    qed
  qed
  with mem show "\<exists>invoice \<in> set invoices.
          let md = matchingDeliveries rules ds invoice;
              v = variance (totalDelivered md) (expectedQuantity invoice)
          in e_invoiceId e = invoiceId invoice \<and>
             (if md = [] then e_reason e = ''NO_MATCHING_DELIVERIES'' \<and> e_severity e = HIGH
              else v > tolerancePercent rules \<and> e_reason e = ''QUANTITY_VARIANCE'' \<and>
                   e_severity e = (if v > 20 then HIGH else if v > 10 then MEDIUM else LOW))"
    by (auto simp: Let_def)
qed

theorem exception_severity_assignment_witness:
  "matchingDeliveries getDefaultRules [exampleDelivery ''D2'' ''K2'' 700]
     (exampleInvoice ''1'' ''K1'' (Some 1000)) = []
   \<and> (\<exists>e \<in> set (exceptions (performReconciliation
            [exampleInvoice ''1'' ''K1'' (Some 1000), exampleInvoice ''2'' ''K2'' (Some 1000)]
            [exampleDelivery ''D2'' ''K2'' 700] getDefaultRules)).
         e_invoiceId e = ''INV-1'' \<and> e_reason e = ''NO_MATCHING_DELIVERIES'' \<and> e_severity e = HIGH)
   \<and> (\<exists>e \<in> set (exceptions (performReconciliation
            [exampleInvoice ''1'' ''K1'' (Some 1000), exampleInvoice ''2'' ''K2'' (Some 1000)]
            [exampleDelivery ''D2'' ''K2'' 700] getDefaultRules)).
         e_invoiceId e = ''INV-2'' \<and> e_reason e = ''QUANTITY_VARIANCE'' \<and> e_severity e = HIGH)"
proof -
  let ?one = "exampleInvoice ''1'' ''K1'' (Some 1000)"
  let ?two = "exampleInvoice ''2'' ''K2'' (Some 1000)"
  let ?ds = "[exampleDelivery ''D2'' ''K2'' 700]"
  have none: "matchingDeliveries getDefaultRules ?ds ?one = []" by code_simp
  have some: "matchingDeliveries getDefaultRules ?ds ?two \<noteq> []" by code_simp
  have v: "variance (totalDelivered (matchingDeliveries getDefaultRules ?ds ?two))
      (expectedQuantity ?two) = 30" by code_simp
  have band: "tolerancePercent getDefaultRules = 5" by code_simp
  have id1: "invoiceId ?one = ''INV-1''" by (simp add: exampleInvoice_def)
  have id2: "invoiceId ?two = ''INV-2''" by (simp add: exampleInvoice_def)
  from exception_severity_assignment [of "[?one, ?two]" getDefaultRules ?ds] none some
  show ?thesis
    by (simp add: Let_def v band id1 id2)
qed

text \<open>
  Claim C10. The matched list and the exception list partition the input: counted with
  multiplicity, the invoice ids of the two lists together are the invoice ids of the input,
  so \<open>totalInvoices = matchedInvoices + exceptionalInvoices\<close>; when the input ids are
  distinct no id is on both lists; and on the empty input \<open>matchRate\<close> is 0.
\<close>

theorem reconciliation_partitions_invoices:
  "mset (map m_invoiceId (matched (performReconciliation invoices ds rules))) +
   mset (map e_invoiceId (exceptions (performReconciliation invoices ds rules))) =
   mset (map invoiceId invoices)
   \<and> totalInvoices (summary (performReconciliation invoices ds rules)) =
       matchedInvoices (summary (performReconciliation invoices ds rules)) +
       exceptionalInvoices (summary (performReconciliation invoices ds rules))
   \<and> (distinct (map invoiceId invoices) \<longrightarrow>
        set (map m_invoiceId (matched (performReconciliation invoices ds rules))) \<inter>
        set (map e_invoiceId (exceptions (performReconciliation invoices ds rules))) = {})
   \<and> matchRate (summary (performReconciliation [] ds rules)) = 0"
proof -
  let ?r = "performReconciliation invoices ds rules"
  have part: "mset (map m_invoiceId (matched ?r)) + mset (map e_invoiceId (exceptions ?r)) =
      mset (map invoiceId invoices)"
    by (simp only: matched_performReconciliation exceptions_performReconciliation
        mset_partition_ids)
  have len: "length (matched ?r) + length (exceptions ?r) = length invoices"
    using arg_cong [OF part, of size] by simp
  have counts: "totalInvoices (summary ?r) =
      matchedInvoices (summary ?r) + exceptionalInvoices (summary ?r)"
    using len by (simp add: performReconciliation_def split_beta Let_def)
  have disj: "set (map m_invoiceId (matched ?r)) \<inter> set (map e_invoiceId (exceptions ?r)) = {}"
    if d: "distinct (map invoiceId invoices)"
  proof -
    have "distinct (map m_invoiceId (matched ?r) @ map e_invoiceId (exceptions ?r))"
      using d mset_eq_imp_distinct_iff [of "map m_invoiceId (matched ?r) @ map e_invoiceId (exceptions ?r)"
          "map invoiceId invoices"] part by simp
    then show ?thesis by simp
  qed
  have empty: "matchRate (summary (performReconciliation [] ds rules)) = 0"
    by (simp add: performReconciliation_def)
  from part counts disj empty show ?thesis by blast
qed

theorem reconciliation_partitions_invoices_witness:
  "distinct (map invoiceId [exampleInvoice ''1'' ''K1'' (Some 1000), exampleInvoice ''2'' ''K2'' (Some 1000)])
   \<and> set (map m_invoiceId (matched (performReconciliation
          [exampleInvoice ''1'' ''K1'' (Some 1000), exampleInvoice ''2'' ''K2'' (Some 1000)]
          [exampleDelivery ''D1'' ''K1'' 1030, exampleDelivery ''D2'' ''K2'' 700] getDefaultRules))) \<inter>
       set (map e_invoiceId (exceptions (performReconciliation
          [exampleInvoice ''1'' ''K1'' (Some 1000), exampleInvoice ''2'' ''K2'' (Some 1000)]
          [exampleDelivery ''D1'' ''K1'' 1030, exampleDelivery ''D2'' ''K2'' 700] getDefaultRules))) = {}"
proof -
  have d: "distinct (map invoiceId
      [exampleInvoice ''1'' ''K1'' (Some 1000), exampleInvoice ''2'' ''K2'' (Some 1000)])"
    by (simp add: exampleInvoice_def)
  from reconciliation_partitions_invoices [of "[exampleInvoice ''1'' ''K1'' (Some 1000), exampleInvoice ''2'' ''K2'' (Some 1000)]"
      "[exampleDelivery ''D1'' ''K1'' 1030, exampleDelivery ''D2'' ''K2'' 700]" getDefaultRules] d
  show ?thesis by blast
qed

section \<open>Netting: conservation\<close>




















text \<open>
  Scenario 3 of the specification, with two of the debts partly or fully paid: A owes B
  100 after a payment of 50, B owes C 100, C owes A 40, and an invoice of A on B is fully
  paid. The positions come out as B: 0, A: \<open>- 60\<close>, C: 60, in the order of first appearance.
\<close>

lemma netting_scenario:
  "map (\<lambda>p. (partyId p, totalReceivable p, totalPayable p, netPosition p))
     (calculateNettingPositions
        [exampleNettingInvoice ''B'' ''A'' 150 [50],
         exampleNettingInvoice ''C'' ''B'' 100 [],
         exampleNettingInvoice ''A'' ''C'' 40 [],
         exampleNettingInvoice ''A'' ''B'' 10 [4, 6]]) =
   [(''B'', 100, 100, 0), (''A'', 40, 100, - 60), (''C'', 100, 40, 60)]"
  by code_simp



section \<open>Netting: settlement legs\<close>
















section \<open>Reconciliation: applying the results\<close>

lemma keys_markMatched:
  "map keyFields (invoiceTable (markMatched m d)) = map keyFields (invoiceTable d)"
  by (simp add: markMatched_def keyFields_def comp_def)

lemma disputes_markMatched: "disputeTable (markMatched m d) = disputeTable d"
  by (simp add: markMatched_def)

lemma keys_applyException:
  "map keyFields (invoiceTable (applyException now e d)) = map keyFields (invoiceTable d)"
  by (simp add: applyException_def keyFields_def comp_def Let_def split: option.splits)

lemma find_keys:
  "map keyFields t1 = map keyFields t2 \<Longrightarrow>
   map_option keyFields (find (\<lambda>row. invoiceId row = k) t1) =
   map_option keyFields (find (\<lambda>row. invoiceId row = k) t2)"
proof (induction t1 arbitrary: t2)
  case Nil
  then show ?case by simp
next
  case (Cons r t1)
  then obtain r' t2' where t2: "t2 = r' # t2'" and k: "keyFields r = keyFields r'"
    and rest: "map keyFields t1 = map keyFields t2'"
    by (cases t2) auto
  from k have "invoiceId r = invoiceId r'" by (simp add: keyFields_def)
  with Cons.IH [OF rest] k show ?case by (simp add: t2)
qed

lemma disputeOf_keys: "keyFields i1 = keyFields i2 \<Longrightarrow> disputeOf now e i1 = disputeOf now e i2"
  by (simp add: disputeOf_def keyFields_def)

lemma newDisputes_keys:
  assumes "map keyFields t1 = map keyFields t2"
  shows "newDisputes now t1 es = newDisputes now t2 es"
proof -
  have "(case find (\<lambda>row. invoiceId row = k) t1 of
           Some invoice \<Rightarrow> [disputeOf now e invoice] | None \<Rightarrow> []) =
        (case find (\<lambda>row. invoiceId row = k) t2 of
           Some invoice \<Rightarrow> [disputeOf now e invoice] | None \<Rightarrow> [])" for k e
  proof (cases "find (\<lambda>row. invoiceId row = k) t1")
    case None
    with find_keys [OF assms, of k] have "find (\<lambda>row. invoiceId row = k) t2 = None" by simp
    with None show ?thesis by simp
  next
    case (Some i1)
    with find_keys [OF assms, of k] obtain i2
      where i2: "find (\<lambda>row. invoiceId row = k) t2 = Some i2" and "keyFields i1 = keyFields i2"
      by (cases "find (\<lambda>row. invoiceId row = k) t2") auto
    then show ?thesis using Some disputeOf_keys [of i1 i2 now e] by simp
  qed
  then have "(if e_severity e = HIGH
        then (case find (\<lambda>row. invoiceId row = e_invoiceId e) t1 of
                Some invoice \<Rightarrow> [disputeOf now e invoice] | None \<Rightarrow> [])
        else []) =
       (if e_severity e = HIGH
        then (case find (\<lambda>row. invoiceId row = e_invoiceId e) t2 of
                Some invoice \<Rightarrow> [disputeOf now e invoice] | None \<Rightarrow> [])
        else [])" for e
    by simp
  then show ?thesis unfolding newDisputes_def by (simp only:)
qed

lemma disputes_applyException:
  "disputeTable (applyException now e d) = disputeTable d @ newDisputes now (invoiceTable d) [e]"
proof -
  let ?t1 = "map (\<lambda>row. if invoiceId row = e_invoiceId e
                         then row\<lparr>inv_status := PARTIALLY_MATCHED\<rparr> else row) (invoiceTable d)"
  have "map keyFields ?t1 = map keyFields (invoiceTable d)"
    by (simp add: keyFields_def comp_def)
  from newDisputes_keys [OF this, of now "[e]"]
  have "newDisputes now ?t1 [e] = newDisputes now (invoiceTable d) [e]" .
  moreover have "disputeTable (applyException now e d) = disputeTable d @ newDisputes now ?t1 [e]"
    by (simp add: applyException_def newDisputes_def disputeOf_def Let_def split: option.splits)
  ultimately show ?thesis by simp
qed

lemma newDisputes_Cons:
  "newDisputes now t (e # es) = newDisputes now t [e] @ newDisputes now t es"
  by (simp add: newDisputes_def)

lemma disputes_fold_applyException:
  "disputeTable (fold (applyException now) es d) =
     disputeTable d @ newDisputes now (invoiceTable d) es"
proof (induction es arbitrary: d)
  case Nil
  show ?case by (simp add: newDisputes_def)
next
  case (Cons e es)
  have "newDisputes now (invoiceTable (applyException now e d)) es =
      newDisputes now (invoiceTable d) es"
    by (rule newDisputes_keys) (rule keys_applyException)
  with Cons [of "applyException now e d"] show ?case
    by (simp add: disputes_applyException newDisputes_Cons [of now _ e es])
qed

lemma keys_fold_markMatched:
  "map keyFields (invoiceTable (fold markMatched ms d)) = map keyFields (invoiceTable d)"
  by (induction ms arbitrary: d) (simp_all add: keys_markMatched)

lemma disputes_fold_markMatched: "disputeTable (fold markMatched ms d) = disputeTable d"
  by (induction ms arbitrary: d) (simp_all add: disputes_markMatched)

lemma keys_fold_applyException:
  "map keyFields (invoiceTable (fold (applyException now) es d)) = map keyFields (invoiceTable d)"
  by (induction es arbitrary: d) (simp_all add: keys_applyException)

lemma allPartially_applyException:
  assumes "allPartially ids (invoiceTable d)"
  shows "allPartially (insert (e_invoiceId e) ids) (invoiceTable (applyException now e d))"
proof -
  have t: "invoiceTable (applyException now e d) =
      map (\<lambda>row. if invoiceId row = e_invoiceId e
                  then row\<lparr>inv_status := PARTIALLY_MATCHED\<rparr> else row) (invoiceTable d)"
    by (simp add: applyException_def Let_def split: option.splits)
  show ?thesis using assms unfolding t allPartially_def by auto
qed

lemma allPartially_fold:
  "allPartially ids (invoiceTable d) \<Longrightarrow>
   allPartially (ids \<union> e_invoiceId ` set es) (invoiceTable (fold (applyException now) es d))"
proof (induction es arbitrary: d ids)
  case Nil
  then show ?case by simp
next
  case (Cons e es)
  from Cons.IH [OF allPartially_applyException [OF Cons.prems, of e now]]
  show ?case by simp
qed

lemma ids_of_keys:
  "map keyFields t1 = map keyFields t2 \<Longrightarrow> invoiceId ` set t1 = invoiceId ` set t2"
proof -
  assume "map keyFields t1 = map keyFields t2"
  then have "map fst (map keyFields t1) = map fst (map keyFields t2)" by simp
  then have "map invoiceId t1 = map invoiceId t2" by (simp add: keyFields_def comp_def)
  then have "set (map invoiceId t1) = set (map invoiceId t2)" by simp
  then show ?thesis by simp
qed

lemma newDisputes_found:
  assumes "\<forall>e \<in> set es. \<exists>row \<in> set table. invoiceId row = e_invoiceId e"
  shows "newDisputes now table es =
     map (\<lambda>e. disputeOf now e (the (find (\<lambda>row. invoiceId row = e_invoiceId e) table)))
       (filter (\<lambda>e. e_severity e = HIGH) es)"
  using assms
proof (induction es)
  case Nil
  show ?case by (simp add: newDisputes_def)
next
  case (Cons e es)
  from Cons.prems have "find (\<lambda>row. invoiceId row = e_invoiceId e) table \<noteq> None"
    by (auto simp: find_None_iff)
  then obtain invoice where "find (\<lambda>row. invoiceId row = e_invoiceId e) table = Some invoice"
    by auto
  then have one: "newDisputes now table [e] =
      (if e_severity e = HIGH then [disputeOf now e invoice] else [])"
    and the: "the (find (\<lambda>row. invoiceId row = e_invoiceId e) table) = invoice"
    by (simp_all add: newDisputes_def)
  from Cons have "newDisputes now table es =
     map (\<lambda>e. disputeOf now e (the (find (\<lambda>row. invoiceId row = e_invoiceId e) table)))
       (filter (\<lambda>e. e_severity e = HIGH) es)"
    by simp
  with one the show ?case by (simp add: newDisputes_Cons [of now table e es])
qed

text \<open>
  Claim C7. When the results are applied to a database that holds the invoice of every
  exception, every row of an exception's invoice ends with status \<open>PARTIALLY_MATCHED\<close>
  (the rows are still there), and the dispute table grows by exactly one row for each
  exception of severity \<open>HIGH\<close>, in order: reason \<open>QUANTITY_VARIANCE\<close>, status \<open>OPEN\<close>, raised
  by the invoice's counterparty against its issuer, deadline seven days after \<open>now\<close>,
  description the exception's recommendation.
\<close>

theorem high_exceptions_open_disputes:
  assumes "\<forall>e \<in> set es. \<exists>row \<in> set (invoiceTable d). invoiceId row = e_invoiceId e"
  shows "(\<forall>e \<in> set es. \<forall>row \<in> set (invoiceTable (updateInvoiceStatuses now ms es d)).
            invoiceId row = e_invoiceId e \<longrightarrow> inv_status row = PARTIALLY_MATCHED)
     \<and> invoiceId ` set (invoiceTable (updateInvoiceStatuses now ms es d)) =
         invoiceId ` set (invoiceTable d)
     \<and> disputeTable (updateInvoiceStatuses now ms es d) =
         disputeTable d @
         map (\<lambda>e. let invoice = the (find (\<lambda>row. invoiceId row = e_invoiceId e) (invoiceTable d))
                   in \<lparr>disputeId = ''DSP-'' @ decimal (nat now),
                       dsp_invoiceId = inv_id invoice,
                       dsp_contractId = contractId invoice,
                       raisedById = counterpartyId invoice,
                       receivedById = issuerId invoice,
                       reasonCode = ''QUANTITY_VARIANCE'',
                       description = e_recommendation e,
                       dsp_status = OPEN,
                       slaDeadline = now + 7 * 24 * 60 * 60 * 1000\<rparr>)
           (filter (\<lambda>e. e_severity e = HIGH) es)"
proof -
  let ?d1 = "fold markMatched ms d"
  let ?d2 = "updateInvoiceStatuses now ms es d"
  have d2: "?d2 = fold (applyException now) es ?d1" by (simp add: updateInvoiceStatuses_def)
  have keys: "map keyFields (invoiceTable ?d2) = map keyFields (invoiceTable d)"
    by (simp add: d2 keys_fold_applyException keys_fold_markMatched)
  have "allPartially {} (invoiceTable ?d1)" by (simp add: allPartially_def)
  from allPartially_fold [OF this, of es now]
  have a: "\<forall>e \<in> set es. \<forall>row \<in> set (invoiceTable ?d2).
      invoiceId row = e_invoiceId e \<longrightarrow> inv_status row = PARTIALLY_MATCHED"
    by (auto simp: d2 allPartially_def)
  have b: "invoiceId ` set (invoiceTable ?d2) = invoiceId ` set (invoiceTable d)"
    by (rule ids_of_keys [OF keys])
  have "disputeTable ?d2 = disputeTable ?d1 @ newDisputes now (invoiceTable ?d1) es"
    by (simp add: d2 disputes_fold_applyException)
  also have "newDisputes now (invoiceTable ?d1) es = newDisputes now (invoiceTable d) es"
    by (rule newDisputes_keys) (rule keys_fold_markMatched)
  also have "disputeTable ?d1 = disputeTable d" by (rule disputes_fold_markMatched)
  finally have c: "disputeTable ?d2 = disputeTable d @
      map (\<lambda>e. disputeOf now e (the (find (\<lambda>row. invoiceId row = e_invoiceId e) (invoiceTable d))))
        (filter (\<lambda>e. e_severity e = HIGH) es)"
    by (simp add: newDisputes_found [OF assms])
  from a b c show ?thesis
    by (simp add: disputeOf_def disputeStatusDefault_def sevenDaysMs_def Let_def)
qed

theorem high_exceptions_open_disputes_witness:
  "(\<exists>row \<in> set (invoiceTable (exampleDb COMPUTED)). invoiceId row = e_invoiceId exampleException)
   \<and> map inv_status (invoiceTable (exampleDb COMPUTED)) = [PENDING]
   \<and> map inv_status (invoiceTable
        (updateInvoiceStatuses 1000 [] [exampleException] (exampleDb COMPUTED))) = [PARTIALLY_MATCHED]
   \<and> map (\<lambda>x. (reasonCode x, dsp_status x, raisedById x, receivedById x, slaDeadline x,
                 description x))
        (disputeTable (updateInvoiceStatuses 1000 [] [exampleException] (exampleDb COMPUTED))) =
      [(''QUANTITY_VARIANCE'', OPEN, ''ECG'', ''VRA'', 604801000,
        ''Quantity variance of 30.0% exceeds tolerance'')]"
proof -
  have h: "\<forall>e \<in> set [exampleException].
      \<exists>row \<in> set (invoiceTable (exampleDb COMPUTED)). invoiceId row = e_invoiceId e"
    by (simp add: exampleDb_def exampleInvoice_def exampleException_def)
  have s: "map inv_status (invoiceTable
        (updateInvoiceStatuses 1000 [] [exampleException] (exampleDb COMPUTED))) = [PARTIALLY_MATCHED]"
    by (simp add: updateInvoiceStatuses_def applyException_def exampleDb_def
        exampleInvoice_def exampleException_def Let_def)
  from high_exceptions_open_disputes [OF h, of 1000 "[]"] h s show ?thesis
    by (simp add: exampleDb_def exampleInvoice_def exampleException_def)
qed

section \<open>Settlement: the ledger route against the treasury route\<close>

text \<open>
  The treasury route is the path that gates the two operations: a second approval by the
  same user is answered \<open>Already approved\<close>, the batch becomes \<open>APPROVED\<close> when three approvals
  are on record, execution is refused unless the batch is \<open>APPROVED\<close>, and a failed escrow
  reservation ends the execution with the database untouched.
\<close>

lemma treasury_approve_duplicate:
  assumes "find (\<lambda>u. user_id u = ar_userId req) (userTable d) = Some user"
    and "user_role user = ''TREASURY'' \<or> user_role user = ''MINISTER''"
    and "checkExistingApproval h (ar_batchId req) (ar_userId req)"
  shows "treasuryApproveSettlement h req d = (Inl AlreadyApproved, d)"
  using assms by (auto simp: treasuryApproveSettlement_def)

lemma treasury_approve_quorum:
  assumes "find (\<lambda>u. user_id u = ar_userId req) (userTable d) = Some user"
    and "user_role user = ''TREASURY'' \<or> user_role user = ''MINISTER''"
    and "\<not> checkExistingApproval h (ar_batchId req) (ar_userId req)"
  shows "settlementBatchTable (snd (treasuryApproveSettlement h req d)) =
     (if 3 \<le> length (getApprovals h (ar_batchId req))
      then map (\<lambda>b. if batchId b = ar_batchId req then b\<lparr>batch_status := APPROVED\<rparr> else b)
             (settlementBatchTable d)
      else settlementBatchTable d)"
  using assms by (auto simp: treasuryApproveSettlement_def totalRequiredApprovers_def Let_def)

lemma treasury_execute_requires_approved:
  "treasuryExecuteSettlement h now batch d =
     (Inl SettlementNotApproved, d)
   \<or> (\<exists>b. find (\<lambda>b. batchId b = batch) (settlementBatchTable d) = Some b
          \<and> batch_status b = APPROVED)"
  by (auto simp: treasuryExecuteSettlement_def split: option.splits)

lemma treasury_execute_reservation_failure:
  assumes "find (\<lambda>b. batchId b = batch) (settlementBatchTable d) = Some b"
    and "batch_status b = APPROVED"
    and "\<not> reserveFunds h
           (reserveRequestFor batch (generateLegs h (calculateNetPositions h (period b))))"
  shows "treasuryExecuteSettlement h now batch d = (Inl InsufficientEscrowFunds, d)"
  using assms by (simp add: treasuryExecuteSettlement_def Let_def)

text \<open>
  The quorum of the ledger route on the approver lists used below.
\<close>

lemma requiredApprovals_examples:
  "requiredApprovals [] = 0"
  "requiredApprovals [''MoE''] = 1"
  "requiredApprovals [''MoE'', ''MoF'', ''CAGD''] = 3"
  by code_simp+

text \<open>
  The product is a double product: for 1500 approvers \<open>1500 * 0.67\<close> is
  \<open>1005.0000000000001\<close> and the quorum is 1006.
\<close>

lemma requiredApprovals_rounding:
  assumes "length approvers = 1500"
  shows "requiredApprovals approvers = 1006"
proof -
  have "\<lceil>fmul 1500 (dbl (67 / 100))\<rceil> = 1006" by code_simp
  with assms show ?thesis by (simp add: requiredApprovals_def)
qed

text \<open>
  Claim C3, evaluated on \<^verbatim>\<open>approveSettlement\<close> of the ledger route. The claim asks for a
  quorum of three distinct approvers and the rejection of a repeated approval. The ledger
  route takes both lists from the request and requires \<open>ceil (0.67 * approvers)\<close> entries:
  a request naming one approver is approved with one approval, a request naming none with
  none, and three approvals by the same approver meet a quorum of three.
\<close>

theorem ledger_approval_quorum_is_relative:
  "requiredApprovals [''MoE''] = 1
   \<and> map batch_status (settlementBatchTable (db (exampleWorld COMPUTED))) = [COMPUTED]
   \<and> map batch_status (settlementBatchTable (db (snd
        (approveSettlement (exampleEnv True) (exampleApproval [''MoE''] [''MoE''])
           (exampleWorld COMPUTED))))) = [APPROVED]
   \<and> map batch_status (settlementBatchTable (db (snd
        (approveSettlement (exampleEnv True) (exampleApproval [] []) (exampleWorld COMPUTED)))))
       = [APPROVED]
   \<and> map batch_status (settlementBatchTable (db (snd
        (approveSettlement (exampleEnv True)
           (exampleApproval [''MoE'', ''MoF'', ''CAGD''] [''MoE'', ''MoE'', ''MoE''])
           (exampleWorld COMPUTED))))) = [APPROVED]"
  by (simp add: approveSettlement_def requiredApprovals_examples exampleWorld_def exampleDb_def
      exampleBatch_def exampleEnv_def exampleApproval_def Let_def)

text \<open>
  Claim C4, evaluated on \<^verbatim>\<open>executeSettlement\<close> of the ledger route. The claim permits
  execution from \<open>APPROVED\<close> only. The ledger route never reads the batch status: a batch
  that is still \<open>COMPUTED\<close> becomes \<open>EXECUTED\<close> and its leg is paid.
\<close>

theorem ledger_execution_ignores_status:
  "map batch_status (settlementBatchTable (db (exampleWorld COMPUTED))) = [COMPUTED]
   \<and> map batch_status (settlementBatchTable (db (snd
        (executeSettlement (exampleEnv True) exampleExecution (exampleWorld COMPUTED)))))
       = [EXECUTED]
   \<and> map (\<lambda>p. (pay_payerId p, pay_payeeId p, pay_amount p, pay_status p))
        (paymentTable (db (snd
          (executeSettlement (exampleEnv True) exampleExecution (exampleWorld COMPUTED)))))
       = [(''A'', ''C'', 60, COMPLETED)]"
  by (simp add: executeSettlement_def paymentOfLeg_def exampleWorld_def exampleDb_def
      exampleBatch_def exampleEnv_def exampleExecution_def Let_def)

text \<open>
  Claim C8, evaluated on \<^verbatim>\<open>executeSettlement\<close> of the ledger route. The claim asks that
  execution reserves the funds first and stops, with nothing changed, when the reservation
  fails. The ledger route has no reservation step: the batch becomes \<open>EXECUTED\<close> and the
  payment is created without one, where the treasury route with a failing reservation
  answers \<open>Insufficient escrow funds\<close> and leaves the database as it was.
\<close>

theorem ledger_execution_reserves_nothing:
  "map batch_status (settlementBatchTable (db (exampleWorld APPROVED))) = [APPROVED]
   \<and> map batch_status (settlementBatchTable (db (snd
        (executeSettlement (exampleEnv True) exampleExecution (exampleWorld APPROVED)))))
       = [EXECUTED]
   \<and> map pay_amount (paymentTable (db (snd
        (executeSettlement (exampleEnv True) exampleExecution (exampleWorld APPROVED))))) = [60]
   \<and> treasuryExecuteSettlement (treasuryPlaceholders\<lparr>reserveFunds := (\<lambda>request. False)\<rparr>)
        1700000000000 ''SB-1'' (exampleDb APPROVED)
       = (Inl InsufficientEscrowFunds, exampleDb APPROVED)"
  by (simp add: executeSettlement_def paymentOfLeg_def treasuryExecuteSettlement_def
      treasuryPlaceholders_def exampleWorld_def exampleDb_def exampleBatch_def
      exampleEnv_def exampleExecution_def Let_def)

text \<open>
  Claim C9, evaluated on \<^verbatim>\<open>updateInvoiceStatuses\<close> and on the two ledger operations. The
  claim asks for one audit event per status transition. The invoice goes from \<open>PENDING\<close> to
  \<open>MATCHED\<close> and the batch from \<open>COMPUTED\<close> to \<open>APPROVED\<close> and from \<open>APPROVED\<close> to \<open>EXECUTED\<close>
  with the audit log table still empty; the approval is recorded as one ledger transaction
  only.
\<close>

theorem transitions_leave_audit_log_empty:
  "map inv_status (invoiceTable (exampleDb COMPUTED)) = [PENDING]
   \<and> map inv_status (invoiceTable (updateInvoiceStatuses 1000 [exampleMatch] [] (exampleDb COMPUTED)))
       = [MATCHED]
   \<and> auditLogTable (updateInvoiceStatuses 1000 [exampleMatch] [] (exampleDb COMPUTED)) = []
   \<and> map batch_status (settlementBatchTable (db (snd
        (approveSettlement (exampleEnv True)
           (exampleApproval [''MoE'', ''MoF'', ''CAGD''] [''MoE'', ''MoF'', ''CAGD''])
           (exampleWorld COMPUTED))))) = [APPROVED]
   \<and> auditLogTable (db (snd
        (approveSettlement (exampleEnv True)
           (exampleApproval [''MoE'', ''MoF'', ''CAGD''] [''MoE'', ''MoF'', ''CAGD''])
           (exampleWorld COMPUTED)))) = []
   \<and> length (transactions (blockchainState (snd
        (approveSettlement (exampleEnv True)
           (exampleApproval [''MoE'', ''MoF'', ''CAGD''] [''MoE'', ''MoF'', ''CAGD''])
           (exampleWorld COMPUTED))))) = 1
   \<and> map batch_status (settlementBatchTable (db (snd
        (executeSettlement (exampleEnv True) exampleExecution (exampleWorld APPROVED)))))
       = [EXECUTED]
   \<and> auditLogTable (db (snd
        (executeSettlement (exampleEnv True) exampleExecution (exampleWorld APPROVED)))) = []"
  by (simp add: updateInvoiceStatuses_def markMatched_def approveSettlement_def
      executeSettlement_def requiredApprovals_examples exampleMatch_def exampleWorld_def
      exampleDb_def exampleBatch_def exampleEnv_def exampleApproval_def exampleExecution_def
      exampleInvoice_def Let_def)

end
